theory Spec2Isabelle
  imports Main
begin

section \<open>Data model of the block editor component (Editor.js)\<close>

text \<open>
  A path is a JavaScript array whose segments are either key references
  \<^verbatim>\<open>{_key: k}\<close> or field-name strings such as \<^verbatim>\<open>'children'\<close> and
  \<^verbatim>\<open>'markDefs'\<close>.
\<close>

datatype segment = KeySeg string | FieldSeg string

type_synonym path = "segment list"

text \<open>
  \<^verbatim>\<open>xs[i]\<close>: reading a JavaScript array out of range gives \<^verbatim>\<open>undefined\<close>,
  here \<open>None\<close>.
\<close>

fun at :: "'a list \<Rightarrow> nat \<Rightarrow> 'a option" where
  "at [] i = None"
| "at (s # ss) 0 = Some s"
| "at (s # ss) (Suc i) = at ss i"

text \<open>
  JavaScript truthiness of a segment: an object is truthy, a string is truthy unless it
  is empty.
\<close>

fun truthy :: "segment \<Rightarrow> bool" where
  "truthy (KeySeg k) = True"
| "truthy (FieldSeg f) = (f \<noteq> [])"

text \<open>
  \<^verbatim>\<open>segment._key\<close> on a segment that exists: the key of a key reference,
  \<^verbatim>\<open>undefined\<close> (\<open>None\<close>) on a string.
\<close>

fun key_of :: "segment \<Rightarrow> string option" where
  "key_of (KeySeg k) = Some k"
| "key_of (FieldSeg f) = None"

text \<open>
  The errors the component can raise: a \<^verbatim>\<open>TypeError\<close> from a property read on
  \<^verbatim>\<open>undefined\<close> or \<^verbatim>\<open>null\<close>, and the \<^verbatim>\<open>Error\<close> thrown by
  \<^verbatim>\<open>trackFocusPath\<close> with its message.
\<close>

datatype error = TypeError | Error string

text \<open>
  A node of the Slate document tree: its key, its \<^verbatim>\<open>object\<close> tag
  (\<^verbatim>\<open>'document'\<close>, \<^verbatim>\<open>'block'\<close>, \<^verbatim>\<open>'inline'\<close>, \<^verbatim>\<open>'text'\<close>), its
  \<^verbatim>\<open>type\<close>, the two entries of \<^verbatim>\<open>node.data\<close> the component reads
  (\<^verbatim>\<open>data.get('_key')\<close>, and \<^verbatim>\<open>data.get('annotations')\<close>: an object from
  mark names to annotation records, kept in key order, of which only \<^verbatim>\<open>_key\<close>
  is read), and its child nodes.
\<close>

datatype node =
  Node (key: string) (object: string) (ntype: string)
       (data_key: "string option")
       (annotations: "(string \<times> string option) list option")
       (nodes: "node list")

text \<open>A structured block of the persisted value (\<^verbatim>\<open>FormBuilderValue\<close>).\<close>

record formBuilderValue =
  bkey :: string
  btype :: string

text \<open>The schema type of the block content field (\<^verbatim>\<open>Type\<close>), opaque here.\<close>

datatype schema_type = SchemaType string

text \<open>A member type of the schema, looked up by its \<^verbatim>\<open>name\<close>.\<close>

record member_type =
  name :: string

record decorator =
  dvalue :: string
  blockEditor_render :: "string option"

record feature_types =
  blockObjects :: "member_type list"
  inlineObjects :: "member_type list"
  span :: member_type

record blockContentFeatures =
  decorators :: "decorator list"
  types :: feature_types

text \<open>A marker (for example a validation message) addressed by a path.\<close>

record marker =
  mpath :: path
  mtype :: string

text \<open>
  The fields of the Slate value that the component reads. Slate derives
  \<^verbatim>\<open>focusText\<close> and \<^verbatim>\<open>focusInline\<close> from \<^verbatim>\<open>selection.focus.key\<close>, so
  the key is a string whenever one of them is set.
\<close>

record slateValue =
  document :: node
  focusBlock :: "node option"
  focusInline :: "node option"
  focusText :: "node option"
  selection_focus_key :: string

text \<open>The browser event handed to a handler, opaque here.\<close>

datatype synthetic_event = SyntheticEvent string

text \<open>
  The argument \<^verbatim>\<open>{event, value, path, type}\<close> of a paste interceptor and its
  result \<^verbatim>\<open>{insert?, path?}\<close>. An interceptor may also return \<^verbatim>\<open>undefined\<close>;
  hence it is a function into an option.
\<close>

record paste_args =
  pa_event :: synthetic_event
  pa_value :: "formBuilderValue list option"
  pa_path :: path
  pa_type :: schema_type

record paste_result =
  insert_payload :: "formBuilderValue list option"
  result_path :: "path option"

type_synonym paste_interceptor = "paste_args \<Rightarrow> paste_result option"

text \<open>
  The patch built by \<^verbatim>\<open>insert(items, position, path)\<close> of PatchEvent, and the
  event \<^verbatim>\<open>PatchEvent.from(patches)\<close>. The items handed over by
  \<^verbatim>\<open>handlePaste\<close> are \<^verbatim>\<open>[result.insert]\<close>: a one-element array holding the
  interceptor's payload.
\<close>

datatype patch = Insert "formBuilderValue list list" string "path option"

datatype patchEvent = PatchEvent "patch list"

text \<open>
  The callback \<^verbatim>\<open>() => onFocus(path)\<close> that \<^verbatim>\<open>handleChange\<close> hands to
  \<^verbatim>\<open>onChange\<close>.
\<close>

datatype callback = OnFocusCallback path

text \<open>
  The calls the component makes to its collaborators, in the order it makes them:
  the DOM scroll of \<^verbatim>\<open>scrollIntoView(node)\<close>, the props \<^verbatim>\<open>onChange\<close>,
  \<^verbatim>\<open>onLoading({paste: status})\<close>, \<^verbatim>\<open>onPatch\<close>, the paste interceptor, and the
  continuation \<^verbatim>\<open>next()\<close> of the plugin chain.
\<close>

datatype effect =
    ScrollIntoView node
  | OnChange slateValue "callback option"
  | OnLoading "string option"
  | OnPaste paste_args
  | OnPatch patchEvent
  | Next

text \<open>What a plugin-chain handler returns: a value of its own, or what \<^verbatim>\<open>next()\<close> returned.\<close>

datatype handled = Returned "formBuilderValue list" | NextResult

text \<open>The props of the component that the modelled methods read.\<close>

record props =
  blockContentFeatures :: blockContentFeatures
  editorValue :: slateValue
  focusPath :: "path option"
  markers :: "marker list"
  onPaste :: "paste_interceptor option"
  ptype :: schema_type
  undoRedoStack :: string
  pvalue :: "formBuilderValue list option"

section \<open>Paste handling\<close>

text \<open>
  \<^verbatim>\<open>handlePaste(event, editor, next)\<close>. The first argument is the optional part
  \<^verbatim>\<open>onPasteFromPart\<close> imported by the module; \<open>ev\<close> is \<^verbatim>\<open>editor.value\<close>.
  An array is truthy in JavaScript even when empty, so \<^verbatim>\<open>result.insert\<close> and
  \<^verbatim>\<open>result.path\<close> are truthy exactly when present.
\<close>

definition paste_path :: "slateValue \<Rightarrow> path" where
  "paste_path ev =
     (case focusBlock ev of None \<Rightarrow> [] | Some fb \<Rightarrow> [KeySeg (key fb)]) @
     (if focusInline ev \<noteq> None \<or> focusText ev \<noteq> None
      then [FieldSeg ''children'', KeySeg (selection_focus_key ev)] else [])"

text \<open>\<^verbatim>\<open>this.props.onPaste || onPasteFromPart\<close>.\<close>

definition configured_interceptor :: "paste_interceptor option \<Rightarrow> props \<Rightarrow> paste_interceptor option" where
  "configured_interceptor onPasteFromPart p =
     (case onPaste p of Some f \<Rightarrow> Some f | None \<Rightarrow> onPasteFromPart)"

definition handlePaste ::
  "paste_interceptor option \<Rightarrow> props \<Rightarrow> synthetic_event \<Rightarrow> slateValue \<Rightarrow> effect list \<times> handled" where
  "handlePaste onPasteFromPart p event ev =
     (case configured_interceptor onPasteFromPart p of
        None \<Rightarrow> ([Next], NextResult)
      | Some interceptor \<Rightarrow>
          (let args = \<lparr>pa_event = event, pa_value = pvalue p, pa_path = paste_path ev,
                        pa_type = ptype p\<rparr>;
               started = [OnLoading (Some ''start''), OnPaste args];
               fall_through = (started @ [OnLoading None, Next], NextResult)
           in case interceptor args of
                None \<Rightarrow> fall_through
              | Some result \<Rightarrow>
                  (case insert_payload result of
                     None \<Rightarrow> fall_through
                   | Some ins \<Rightarrow>
                       (started @
                        [OnPatch (PatchEvent [Insert [ins] ''after''
                           (case result_path result of Some rp \<Rightarrow> Some rp
                            | None \<Rightarrow> focusPath p)]),
                         OnLoading None],
                        Returned ins))))"

text \<open>Observers of a trace of calls: what each collaborator received.\<close>

fun loading_signals :: "effect list \<Rightarrow> string option list" where
  "loading_signals [] = []"
| "loading_signals (OnLoading st # es) = st # loading_signals es"
| "loading_signals (e # es) = loading_signals es"

fun patches_received :: "effect list \<Rightarrow> patch list" where
  "patches_received [] = []"
| "patches_received (OnPatch (PatchEvent ps) # es) = ps @ patches_received es"
| "patches_received (e # es) = patches_received es"

fun next_calls :: "effect list \<Rightarrow> nat" where
  "next_calls [] = 0"
| "next_calls (Next # es) = Suc (next_calls es)"
| "next_calls (e # es) = next_calls es"

fun scrolls :: "effect list \<Rightarrow> node list" where
  "scrolls [] = []"
| "scrolls (ScrollIntoView n # es) = n # scrolls es"
| "scrolls (e # es) = scrolls es"

section \<open>The document tree\<close>

text \<open>
  Slate's tree queries, as the component uses them. \<open>descendants\<close> lists every
  proper descendant of a node with its parent, depth first, in document order;
  \<open>all_nodes\<close> is the node itself, which has no parent in its own tree, followed by
  its descendants.

  Slate resolves a key through the node's table from keys to paths. The table starts
  with the node's own key, at the empty path, and then takes the entries of each child's
  table in order, a later entry replacing an earlier one with the same key. So a key
  stands for the last node carrying it in document order, the node itself included
  (keys are unique in a document Slate has normalised).
  \<^verbatim>\<open>document.getDescendant(key)\<close> is the node the key stands for, the document
  itself for the document's own key; it is \<^verbatim>\<open>null\<close> when no node has the key or
  when the key is \<^verbatim>\<open>undefined\<close>. \<^verbatim>\<open>document.getParent(key)\<close> is the parent of
  that node, \<^verbatim>\<open>null\<close> when no node has the key or when the node is the document.
\<close>

fun descendants :: "node \<Rightarrow> (node \<times> node) list" where
  "descendants (Node k ob ty dk an cs) =
     concat (map (\<lambda>c. (Node k ob ty dk an cs, c) # descendants c) cs)"

definition all_nodes :: "node \<Rightarrow> (node option \<times> node) list" where
  "all_nodes doc = (None, doc) # map (\<lambda>pc. (Some (fst pc), snd pc)) (descendants doc)"

definition lookup_key :: "node \<Rightarrow> string \<Rightarrow> (node option \<times> node) option" where
  "lookup_key doc k = find (\<lambda>pn. key (snd pn) = k) (rev (all_nodes doc))"

definition getDescendant :: "node \<Rightarrow> string option \<Rightarrow> node option" where
  "getDescendant doc k =
     (case k of None \<Rightarrow> None | Some k' \<Rightarrow> map_option snd (lookup_key doc k'))"

definition getParent :: "node \<Rightarrow> string \<Rightarrow> node option" where
  "getParent doc k = (case lookup_key doc k of None \<Rightarrow> None | Some pn \<Rightarrow> fst pn)"

text \<open>
  Modelled from the spec: \<^verbatim>\<open>utils/findInlineByAnnotationKey\<close> is not among the
  sources. The spec: it "locates the block, scans its span descendants for any span whose
  resolved annotation set contains annotationKey, returns the first matching span; returns
  null (not an error) when no span currently carries that annotation". A span is a node
  of type \<^verbatim>\<open>'span'\<close>; its annotation set is \<^verbatim>\<open>data.get('annotations')\<close>, as
  \<^verbatim>\<open>renderNode\<close> reads it. No span carries the annotation when there is no block.
\<close>

definition carries_annotation :: "string option \<Rightarrow> node \<Rightarrow> bool" where
  "carries_annotation a n =
     (ntype n = ''span'' \<and>
      (case annotations n of None \<Rightarrow> False | Some as \<Rightarrow> list_ex (\<lambda>na. snd na = a) as))"

definition spec_findInlineByAnnotationKey :: "string option \<Rightarrow> node option \<Rightarrow> node option" where
  "spec_findInlineByAnnotationKey a block =
     (case block of None \<Rightarrow> None
      | Some b \<Rightarrow> find (carries_annotation a) (map snd (descendants b)))"

text \<open>
  \<^verbatim>\<open>trackFocusPath\<close> below takes the helper as a parameter: any function of the
  annotation key and the block (\<^verbatim>\<open>null\<close> when the block was not found) that returns
  a node or \<^verbatim>\<open>null\<close>, or raises. \<open>spec_finder\<close> is the helper of the specification
  in that form.
\<close>

type_synonym inline_finder = "string option \<Rightarrow> node option \<Rightarrow> error + node option"

definition spec_finder :: inline_finder where
  "spec_finder a block = Inr (spec_findInlineByAnnotationKey a block)"

section \<open>The component instance\<close>

text \<open>
  The constant \<^verbatim>\<open>EDITOR_DEFAULT_BLOCK_TYPE\<close> of the block tools is a parameter of
  the constructor below.
\<close>

record block_type =
  type_name :: string

text \<open>The plugins, each with the configuration the constructor gives it.\<close>

datatype plugin =
    QueryPlugin
  | ListItemOnEnterKeyPlugin block_type
  | ListItemOnTabKeyPlugin
  | ToggleListItemPlugin
  | TextBlockOnEnterKeyPlugin block_type
  | SetMarksOnKeyComboPlugin "string list"
  | SoftBreakPlugin "string list" bool
  | PastePlugin schema_type blockContentFeatures
  | InsertBlockOnEnter block_type
  | OnDropPlugin
  | SetBlockStylePlugin
  | ToggleAnnotationPlugin
  | ExpandToWordPlugin
  | WrapSpanPlugin
  | InsertInlineObjectPlugin schema_type
  | InsertBlockObjectPlugin
  | UndoRedoPlugin string
  | FireFoxVoidNodePlugin

text \<open>
  The instance fields: \<^verbatim>\<open>this._editor.current\<close>, the reference to the mounted
  Slate editor (\<^verbatim>\<open>null\<close> until React attaches it), and \<^verbatim>\<open>this._plugins\<close>.
\<close>

datatype slate_react_editor = SlateReactEditor

record editor_instance =
  editor_current :: "slate_react_editor option"
  plugins :: "plugin list"

definition constructor :: "block_type \<Rightarrow> props \<Rightarrow> editor_instance" where
  "constructor EDITOR_DEFAULT_BLOCK_TYPE p =
     \<lparr>editor_current = None,
      plugins =
        [QueryPlugin,
         ListItemOnEnterKeyPlugin EDITOR_DEFAULT_BLOCK_TYPE,
         ListItemOnTabKeyPlugin,
         ToggleListItemPlugin,
         TextBlockOnEnterKeyPlugin EDITOR_DEFAULT_BLOCK_TYPE,
         SetMarksOnKeyComboPlugin (map dvalue (decorators (blockContentFeatures p))),
         SoftBreakPlugin [type_name EDITOR_DEFAULT_BLOCK_TYPE] True,
         PastePlugin (ptype p) (blockContentFeatures p),
         InsertBlockOnEnter EDITOR_DEFAULT_BLOCK_TYPE,
         OnDropPlugin,
         SetBlockStylePlugin,
         ToggleAnnotationPlugin,
         ExpandToWordPlugin,
         WrapSpanPlugin,
         InsertInlineObjectPlugin (ptype p),
         InsertBlockObjectPlugin,
         UndoRedoPlugin (undoRedoStack p),
         FireFoxVoidNodePlugin]\<rparr>"

definition getEditor :: "editor_instance \<Rightarrow> slate_react_editor option" where
  "getEditor inst = editor_current inst"

section \<open>Focus path tracking\<close>

text \<open>Truthiness of \<^verbatim>\<open>path[i]\<close>: \<^verbatim>\<open>undefined\<close> is falsy.\<close>

definition seg_truthy :: "segment option \<Rightarrow> bool" where
  "seg_truthy so = (case so of None \<Rightarrow> False | Some s \<Rightarrow> truthy s)"

text \<open>\<^verbatim>\<open>path[i]._key\<close> where \<^verbatim>\<open>path[i]\<close> is known to be truthy.\<close>

definition seg_key :: "segment option \<Rightarrow> string option" where
  "seg_key so = (case so of None \<Rightarrow> None | Some s \<Rightarrow> key_of s)"

text \<open>The message of the error \<^verbatim>\<open>trackFocusPath\<close> throws, a template string.\<close>

definition not_found_message :: "string option \<Rightarrow> string" where
  "not_found_message k =
     ''Could not find a inline with key '' @
     (case k of None \<Rightarrow> ''undefined'' | Some k' \<Rightarrow> k') @ '', something is amiss.''"

text \<open>
  \<^verbatim>\<open>trackFocusPath()\<close>. It returns the scroll effects, or the error raised. The
  read \<^verbatim>\<open>focusPath[0]._key\<close> raises a \<^verbatim>\<open>TypeError\<close> on an empty path.
  The chain of \<^verbatim>\<open>&&\<close> in the annotation branch calls the helper only when the
  three tests before it hold, and the branch is taken only when the helper returns a node.
\<close>

definition trackFocusPath :: "inline_finder \<Rightarrow> editor_instance \<Rightarrow> props \<Rightarrow> error + effect list" where
  "trackFocusPath findInlineByAnnotationKey inst p =
     (case getEditor inst of
        None \<Rightarrow> Inr []
      | Some editor \<Rightarrow>
         (case focusPath p of
            None \<Rightarrow> Inr []
          | Some fp \<Rightarrow>
             (let ev = editorValue p;
                  focusPathIsSingleBlock =
                    (case focusBlock ev of None \<Rightarrow> False
                     | Some fb \<Rightarrow> fp = [KeySeg (key fb)])
              in case at fp 0 of
                   None \<Rightarrow> Inl TypeError
                 | Some s0 \<Rightarrow>
                    (let block = getDescendant (document ev) (key_of s0) in
                     if focusPathIsSingleBlock then Inr []
                     else if seg_truthy (at fp 1) \<and> at fp 1 = Some (FieldSeg ''children'')
                             \<and> seg_truthy (at fp 2)
                     then (case getDescendant (document ev) (seg_key (at fp 2)) of
                             None \<Rightarrow> Inl (Error (not_found_message (seg_key (at fp 2))))
                           | Some inline \<Rightarrow> Inr [ScrollIntoView inline])
                     else (case (if seg_truthy (at fp 1) \<and> at fp 1 = Some (FieldSeg ''markDefs'')
                                    \<and> seg_truthy (at fp 2)
                                 then findInlineByAnnotationKey (seg_key (at fp 2)) block
                                 else Inr None) of
                             Inl e \<Rightarrow> Inl e
                           | Inr (Some inline) \<Rightarrow> Inr [ScrollIntoView inline]
                           | Inr None \<Rightarrow>
                              (case block of
                                 Some b \<Rightarrow> Inr [ScrollIntoView b]
                               | None \<Rightarrow> Inr []))))))"

definition componentDidMount :: "inline_finder \<Rightarrow> editor_instance \<Rightarrow> props \<Rightarrow> error + effect list" where
  "componentDidMount finder inst p = trackFocusPath finder inst p"

text \<open>
  \<^verbatim>\<open>componentDidUpdate(prevProps)\<close>; lodash's \<^verbatim>\<open>isEqual\<close> is structural
  equality.
\<close>

definition componentDidUpdate ::
  "inline_finder \<Rightarrow> editor_instance \<Rightarrow> props \<Rightarrow> props \<Rightarrow> error + effect list" where
  "componentDidUpdate finder inst prevProps p =
     (case getEditor inst of
        None \<Rightarrow> Inr []
      | Some editor \<Rightarrow>
         (case focusPath p of
            None \<Rightarrow> Inr []
          | Some fp \<Rightarrow>
             if length fp = 0 then Inr []
             else (let focusPathChanged = (focusPath prevProps \<noteq> Some fp) in
                   if \<not> focusPathChanged then Inr []
                   else trackFocusPath finder inst p)))"

text \<open>
  The life of a mounted component: \<^verbatim>\<open>componentDidMount\<close> with the first props,
  then one \<^verbatim>\<open>componentDidUpdate\<close> for every new props, each with the props before
  it. An error ends the run.
\<close>

fun updates :: "inline_finder \<Rightarrow> editor_instance \<Rightarrow> props \<Rightarrow> props list \<Rightarrow> error + effect list" where
  "updates finder inst prev [] = Inr []"
| "updates finder inst prev (p # ps) =
     (case componentDidUpdate finder inst prev p of
        Inl e \<Rightarrow> Inl e
      | Inr es \<Rightarrow>
         (case updates finder inst p ps of Inl e \<Rightarrow> Inl e | Inr es' \<Rightarrow> Inr (es @ es')))"

definition lifecycle :: "inline_finder \<Rightarrow> editor_instance \<Rightarrow> props \<Rightarrow> props list \<Rightarrow> error + effect list" where
  "lifecycle finder inst p0 ps =
     (case componentDidMount finder inst p0 of
        Inl e \<Rightarrow> Inl e
      | Inr es \<Rightarrow>
         (case updates finder inst p0 ps of Inl e \<Rightarrow> Inl e | Inr es' \<Rightarrow> Inr (es @ es')))"

section \<open>Change handling\<close>

text \<open>\<^verbatim>\<open>handleChange(editor)\<close>; \<open>ev\<close> is \<^verbatim>\<open>editor.value\<close>.\<close>

definition handleChange :: "props \<Rightarrow> slateValue \<Rightarrow> effect list" where
  "handleChange p ev =
     (let path = (case focusBlock ev of None \<Rightarrow> [] | Some fb \<Rightarrow> [KeySeg (key fb)]) in
      if length path \<noteq> 0 \<and> (case focusPath p of None \<Rightarrow> False | Some fp \<Rightarrow> length fp = 1)
      then [OnChange ev (Some (OnFocusCallback path))]
      else [OnChange ev None])"

section \<open>Node rendering\<close>

text \<open>
  The argument of \<^verbatim>\<open>renderNode\<close>: the tree node, \<^verbatim>\<open>props.editor.value\<close> and
  \<^verbatim>\<open>props.isFocused\<close>.
\<close>

record slateComponentProps =
  node :: node
  editor_value :: slateValue
  isFocused :: bool

text \<open>
  The first marker filter of \<^verbatim>\<open>renderNode\<close>:
  \<^verbatim>\<open>marker.path[2] && marker.path[2]._key === node.data.get('_key')\<close>. Strict
  equality of two values that are each a string or \<^verbatim>\<open>undefined\<close> is equality of
  options.
\<close>

definition key_marker_match :: "string option \<Rightarrow> marker \<Rightarrow> bool" where
  "key_marker_match k m =
     (case at (mpath m) 2 of None \<Rightarrow> False | Some s2 \<Rightarrow> truthy s2 \<and> key_of s2 = k)"

text \<open>
  The second marker filter, for one annotation of a span:
  \<^verbatim>\<open>marker.path[0]._key === block.key && marker.path[1] === 'markDefs' &&
  marker.path[2]._key === annotations[key]._key\<close>, evaluated left to right. Reading
  \<^verbatim>\<open>_key\<close> of a missing segment, or \<^verbatim>\<open>key\<close> of a missing parent block, raises
  a \<^verbatim>\<open>TypeError\<close>.
\<close>

definition annotation_marker_match :: "node option \<Rightarrow> string option \<Rightarrow> marker \<Rightarrow> error + bool" where
  "annotation_marker_match block akey m =
     (case at (mpath m) 0 of
        None \<Rightarrow> Inl TypeError
      | Some s0 \<Rightarrow>
         (case block of
            None \<Rightarrow> Inl TypeError
          | Some b \<Rightarrow>
             if key_of s0 \<noteq> Some (key b) then Inr False
             else if at (mpath m) 1 \<noteq> Some (FieldSeg ''markDefs'') then Inr False
             else (case at (mpath m) 2 of
                     None \<Rightarrow> Inl TypeError
                   | Some s2 \<Rightarrow> Inr (key_of s2 = akey))))"

text \<open>\<^verbatim>\<open>Array.prototype.filter\<close> with a callback that may raise.\<close>

fun filter_err :: "('a \<Rightarrow> error + bool) \<Rightarrow> 'a list \<Rightarrow> error + 'a list" where
  "filter_err f [] = Inr []"
| "filter_err f (x # xs) =
     (case f x of
        Inl e \<Rightarrow> Inl e
      | Inr b \<Rightarrow>
         (case filter_err f xs of
            Inl e \<Rightarrow> Inl e
          | Inr ys \<Rightarrow> Inr (if b then x # ys else ys)))"

text \<open>
  The loop \<^verbatim>\<open>Object.keys(annotations).forEach(key => markers = markers.concat(...))\<close>
  over the annotations of a span, the accumulator being \<^verbatim>\<open>markers\<close>.
\<close>

fun annotation_markers ::
  "marker list \<Rightarrow> node option \<Rightarrow> (string \<times> string option) list \<Rightarrow> marker list \<Rightarrow> error + marker list" where
  "annotation_markers ms block [] acc = Inr acc"
| "annotation_markers ms block (na # as) acc =
     (case filter_err (annotation_marker_match block (snd na)) ms of
        Inl e \<Rightarrow> Inl e
      | Inr found \<Rightarrow> annotation_markers ms block as (acc @ found))"

text \<open>The variable \<^verbatim>\<open>markers\<close> of \<^verbatim>\<open>renderNode\<close> when the switch is reached.\<close>

definition node_markers :: "props \<Rightarrow> slateComponentProps \<Rightarrow> error + marker list" where
  "node_markers p sp =
     (let n = node sp;
          markers1 = (if object n = ''inline''
                      then filter (key_marker_match (data_key n)) (markers p) else [])
      in if ntype n = ''span''
         then (let markers2 = filter (key_marker_match (data_key n)) (markers p) in
               case annotations n of
                 None \<Rightarrow> Inr markers2
               | Some as \<Rightarrow>
                   annotation_markers (markers p)
                     (getParent (document (editor_value sp)) (key n)) as markers2)
         else Inr markers1)"

text \<open>The view components and what \<^verbatim>\<open>renderNode\<close> hands to each.\<close>

datatype object_class = BlockObject | InlineObject

datatype view =
    ContentBlock "formBuilderValue option" "marker list" node
  | Span "marker list" node member_type
  | ObjectView object_class "member_type option" bool "marker list" node

text \<open>
  \<^verbatim>\<open>renderNode(props)\<close>. The conversion \<^verbatim>\<open>editorValueToBlocks\<close> of the block
  tools is a parameter: it receives the nodes of the document handed to it (here the one
  node, \<^verbatim>\<open>node.toJSON(VALUE_TO_JSON_OPTS)\<close>) and the schema type. An empty array
  for \<^verbatim>\<open>value\<close> is truthy.
\<close>

definition renderNode ::
  "(node list \<Rightarrow> schema_type \<Rightarrow> formBuilderValue list) \<Rightarrow> props \<Rightarrow> slateComponentProps \<Rightarrow> error + view" where
  "renderNode editorValueToBlocks p sp =
     (let n = node sp;
          features = blockContentFeatures p;
          ObjectClass = (if object n = ''inline'' then InlineObject else BlockObject);
          ObjectType = (if object n = ''inline''
                        then find (\<lambda>memberType. name memberType = ntype n)
                               (inlineObjects (types features))
                        else find (\<lambda>memberType. name memberType = ntype n)
                               (blockObjects (types features)))
      in case node_markers p sp of
           Inl e \<Rightarrow> Inl e
         | Inr ms \<Rightarrow>
            if ntype n = ''contentBlock''
            then Inr (ContentBlock
                       (case pvalue p of
                          Some v \<Rightarrow> find (\<lambda>blk. bkey blk = key n) v
                        | None \<Rightarrow> at (editorValueToBlocks [n] (ptype p)) 0)
                       ms n)
            else if ntype n = ''span''
            then Inr (Span ms n (span (types features)))
            else Inr (ObjectView ObjectClass ObjectType (isFocused sp) ms n))"

section \<open>The registration order in the words of the specification\<close>

text \<open>
  The roles the specification gives to the plugins, and the order in which it lists
  them, highest priority first.
\<close>

datatype role =
    QuerySelectionTracking
  | ListEnterHandling
  | ListTabHandling
  | ListToggle
  | GenericEnterHandling
  | MarkHotkeyHandling
  | SoftBreak
  | PasteInterception
  | BlockInsertOnEnter
  | DropHandling
  | BlockStyleSetting
  | AnnotationToggling
  | WordExpansion
  | SpanWrapping
  | InlineObjectInsertion
  | BlockObjectInsertion
  | UndoRedo
  | VoidNodeCompatibilityShim

fun plugin_role :: "plugin \<Rightarrow> role" where
  "plugin_role QueryPlugin = QuerySelectionTracking"
| "plugin_role (ListItemOnEnterKeyPlugin d) = ListEnterHandling"
| "plugin_role ListItemOnTabKeyPlugin = ListTabHandling"
| "plugin_role ToggleListItemPlugin = ListToggle"
| "plugin_role (TextBlockOnEnterKeyPlugin d) = GenericEnterHandling"
| "plugin_role (SetMarksOnKeyComboPlugin ds) = MarkHotkeyHandling"
| "plugin_role (SoftBreakPlugin onlyIn shift) = SoftBreak"
| "plugin_role (PastePlugin t f) = PasteInterception"
| "plugin_role (InsertBlockOnEnter d) = BlockInsertOnEnter"
| "plugin_role OnDropPlugin = DropHandling"
| "plugin_role SetBlockStylePlugin = BlockStyleSetting"
| "plugin_role ToggleAnnotationPlugin = AnnotationToggling"
| "plugin_role ExpandToWordPlugin = WordExpansion"
| "plugin_role WrapSpanPlugin = SpanWrapping"
| "plugin_role (InsertInlineObjectPlugin t) = InlineObjectInsertion"
| "plugin_role InsertBlockObjectPlugin = BlockObjectInsertion"
| "plugin_role (UndoRedoPlugin st) = UndoRedo"
| "plugin_role FireFoxVoidNodePlugin = VoidNodeCompatibilityShim"

definition registration_order :: "role list" where
  "registration_order =
     [QuerySelectionTracking, ListEnterHandling, ListTabHandling, ListToggle,
      GenericEnterHandling, MarkHotkeyHandling, SoftBreak, PasteInterception,
      BlockInsertOnEnter, DropHandling, BlockStyleSetting, AnnotationToggling,
      WordExpansion, SpanWrapping, InlineObjectInsertion, BlockObjectInsertion,
      UndoRedo, VoidNodeCompatibilityShim]"

section \<open>Marker attachment, by the shape of the marker's path\<close>

text \<open>
  A marker whose path has a third segment that is truthy and whose \<^verbatim>\<open>_key\<close> is
  \<open>k\<close>, whatever its first two segments are.
\<close>

definition targets_third_key :: "string option \<Rightarrow> marker \<Rightarrow> bool" where
  "targets_third_key k m =
     (case mpath m of s0 # s1 # s2 # rest \<Rightarrow> truthy s2 \<and> key_of s2 = k | _ \<Rightarrow> False)"

text \<open>
  A marker whose path starts with the key of block \<open>b\<close>, then \<^verbatim>\<open>'markDefs'\<close>, then
  a segment whose \<^verbatim>\<open>_key\<close> is \<open>a\<close>.
\<close>

definition targets_annotation :: "node \<Rightarrow> string option \<Rightarrow> marker \<Rightarrow> bool" where
  "targets_annotation b a m =
     (case mpath m of
        KeySeg bk # FieldSeg f # s2 # rest \<Rightarrow> bk = key b \<and> f = ''markDefs'' \<and> key_of s2 = a
      | _ \<Rightarrow> False)"

text \<open>
  The markers on which the annotation filter raises: every marker when the span has no
  parent block, else a marker with an empty path or with the path of the block's
  \<^verbatim>\<open>markDefs\<close> itself.
\<close>

definition marker_read_fails :: "node option \<Rightarrow> marker \<Rightarrow> bool" where
  "marker_read_fails block m =
     (case block of
        None \<Rightarrow> True
      | Some b \<Rightarrow> mpath m = [] \<or> mpath m = [KeySeg (key b), FieldSeg ''markDefs''])"

fun view_markers :: "view \<Rightarrow> marker list" where
  "view_markers (ContentBlock blk ms n) = ms"
| "view_markers (Span ms n t) = ms"
| "view_markers (ObjectView c t sel ms n) = ms"

section \<open>A concrete document\<close>

text \<open>
  Two content blocks. The first holds a span carrying the annotation \<open>a1\<close> and an
  inline object; the second holds a span with no annotation.
\<close>

definition text_t1 :: node where
  "text_t1 = Node ''t1'' ''text'' [] None None []"

definition span_s1 :: node where
  "span_s1 = Node ''s1'' ''inline'' ''span'' (Some ''s1'') (Some [(''link'', Some ''a1'')]) [text_t1]"

definition text_t2 :: node where
  "text_t2 = Node ''t2'' ''text'' [] None None []"

definition inline_i1 :: node where
  "inline_i1 = Node ''i1'' ''inline'' ''footnote'' (Some ''i1'') None [text_t2]"

definition block_b1 :: node where
  "block_b1 = Node ''b1'' ''block'' ''contentBlock'' (Some ''b1'') None [span_s1, inline_i1]"

definition text_t3 :: node where
  "text_t3 = Node ''t3'' ''text'' [] None None []"

definition span_s2 :: node where
  "span_s2 = Node ''s2'' ''inline'' ''span'' (Some ''s2'') None [text_t3]"

definition block_b2 :: node where
  "block_b2 = Node ''b2'' ''block'' ''contentBlock'' (Some ''b2'') None [span_s2]"

definition example_document :: node where
  "example_document = Node ''doc'' ''document'' [] None None [block_b1, block_b2]"

definition example_value :: slateValue where
  "example_value =
     \<lparr>document = example_document, focusBlock = Some block_b1, focusInline = None,
      focusText = Some text_t1, selection_focus_key = ''t1''\<rparr>"

definition example_features :: blockContentFeatures where
  "example_features =
     \<lparr>decorators = [\<lparr>dvalue = ''strong'', blockEditor_render = None\<rparr>],
      types = \<lparr>blockObjects = [\<lparr>name = ''image''\<rparr>],
               inlineObjects = [\<lparr>name = ''footnote''\<rparr>],
               span = \<lparr>name = ''span''\<rparr>\<rparr>\<rparr>"

definition example_props :: "path option \<Rightarrow> props" where
  "example_props fp =
     \<lparr>blockContentFeatures = example_features, editorValue = example_value,
      focusPath = fp, markers = [], onPaste = None, ptype = SchemaType ''body'',
      undoRedoStack = ''stack'', pvalue = None\<rparr>"

definition mounted :: editor_instance where
  "mounted = \<lparr>editor_current = Some SlateReactEditor, plugins = []\<rparr>"

definition block_x1 :: formBuilderValue where
  "block_x1 = \<lparr>bkey = ''x1'', btype = ''block''\<rparr>"

definition inserting_interceptor :: paste_interceptor where
  "inserting_interceptor args =
     Some \<lparr>insert_payload = Some [block_x1], result_path = Some [KeySeg ''b2'']\<rparr>"

definition declining_interceptor :: paste_interceptor where
  "declining_interceptor args = Some \<lparr>insert_payload = None, result_path = None\<rparr>"

definition example_event :: synthetic_event where
  "example_event = SyntheticEvent ''paste''"

definition pasting_props :: "paste_interceptor \<Rightarrow> props" where
  "pasting_props f = (example_props (Some [KeySeg ''b1'']))\<lparr>onPaste := Some f\<rparr>"

definition example_args :: paste_args where
  "example_args =
     \<lparr>pa_event = example_event, pa_value = None,
      pa_path = [KeySeg ''b1'', FieldSeg ''children'', KeySeg ''t1''],
      pa_type = SchemaType ''body''\<rparr>"

definition marker_block :: marker where
  "marker_block = \<lparr>mpath = [KeySeg ''b1''], mtype = ''validation''\<rparr>"

definition marker_elsewhere :: marker where
  "marker_elsewhere =
     \<lparr>mpath = [KeySeg ''b2'', FieldSeg ''markDefs'', KeySeg ''i1''], mtype = ''validation''\<rparr>"

definition marker_annotation :: marker where
  "marker_annotation =
     \<lparr>mpath = [KeySeg ''b1'', FieldSeg ''markDefs'', KeySeg ''a1''], mtype = ''validation''\<rparr>"

definition marker_span :: marker where
  "marker_span =
     \<lparr>mpath = [KeySeg ''b1'', FieldSeg ''children'', KeySeg ''s1''], mtype = ''validation''\<rparr>"

definition marked_props :: props where
  "marked_props =
     (example_props None)
       \<lparr>markers := [marker_block, marker_elsewhere, marker_annotation, marker_span]\<rparr>"

definition rendering :: "node \<Rightarrow> slateComponentProps" where
  "rendering n = \<lparr>node = n, editor_value = example_value, isFocused = False\<rparr>"

definition example_conversion :: "node list \<Rightarrow> schema_type \<Rightarrow> formBuilderValue list" where
  "example_conversion ns t = map (\<lambda>n. \<lparr>bkey = key n, btype = ''block''\<rparr>) ns"

definition committed_value :: "formBuilderValue list" where
  "committed_value = [\<lparr>bkey = ''b2'', btype = ''block''\<rparr>, \<lparr>bkey = ''b1'', btype = ''block''\<rparr>]"

definition stale_value :: "formBuilderValue list" where
  "stale_value = [\<lparr>bkey = ''b2'', btype = ''block''\<rparr>]"

section \<open>Paste handling: theorems\<close>

text \<open>
  C4. With no paste interceptor configured, neither the prop \<^verbatim>\<open>onPaste\<close> nor the part
  \<^verbatim>\<open>onPasteFromPart\<close>, \<^verbatim>\<open>handlePaste\<close> sends nothing to the patch sink and calls
  \<^verbatim>\<open>next()\<close> exactly once, returning what it returns: the whole trace is the one call.
\<close>

theorem handlePaste_no_interceptor:
  assumes "onPaste p = None"
  shows "handlePaste None p event ev = ([Next], NextResult)
       \<and> patches_received (fst (handlePaste None p event ev)) = []
       \<and> next_calls (fst (handlePaste None p event ev)) = 1"
  using assms by (simp add: handlePaste_def configured_interceptor_def)

theorem handlePaste_no_interceptor_witness:
  "onPaste (example_props None) = None
   \<and> handlePaste None (example_props None) example_event example_value = ([Next], NextResult)
   \<and> patches_received (fst (handlePaste None (example_props None) example_event example_value)) = []
   \<and> next_calls (fst (handlePaste None (example_props None) example_event example_value)) = 1"
proof -
  have h: "onPaste (example_props None) = None"
    by (simp add: example_props_def)
  show ?thesis
    using h handlePaste_no_interceptor [OF h, of example_event example_value] by simp
qed

lemma example_args_eq:
  "example_args =
     \<lparr>pa_event = example_event, pa_value = pvalue (pasting_props f),
      pa_path = paste_path example_value, pa_type = ptype (pasting_props f)\<rparr>"
  by (simp add: example_args_def pasting_props_def example_props_def paste_path_def
      example_value_def block_b1_def)

text \<open>
  C3. When the configured interceptor (the prop \<^verbatim>\<open>onPaste\<close>, else the part) returns
  a result with an \<^verbatim>\<open>insert\<close> payload, \<^verbatim>\<open>handlePaste\<close> makes exactly these calls,
  in this order: \<^verbatim>\<open>onLoading({paste: 'start'})\<close>, the interceptor,
  \<^verbatim>\<open>onPatch\<close> with one insert patch that carries the payload, positioned
  \<^verbatim>\<open>'after'\<close> the result's path, or the focus path when the result has none, and
  \<^verbatim>\<open>onLoading({paste: null})\<close>. The patch sink receives that one patch, the loading
  callback the two signals and no other, and \<^verbatim>\<open>next()\<close> is not called. The items of
  the patch are \<^verbatim>\<open>[result.insert]\<close>, as the source builds them.
\<close>

theorem handlePaste_insert:
  assumes "configured_interceptor onPasteFromPart p = Some interceptor"
    and "args = \<lparr>pa_event = event, pa_value = pvalue p, pa_path = paste_path ev, pa_type = ptype p\<rparr>"
    and "interceptor args = Some result"
    and "insert_payload result = Some blocks"
    and "P = (case result_path result of Some rp \<Rightarrow> Some rp | None \<Rightarrow> focusPath p)"
  shows "handlePaste onPasteFromPart p event ev =
           ([OnLoading (Some ''start''), OnPaste args,
             OnPatch (PatchEvent [Insert [blocks] ''after'' P]), OnLoading None],
            Returned blocks)
       \<and> patches_received (fst (handlePaste onPasteFromPart p event ev)) =
           [Insert [blocks] ''after'' P]
       \<and> loading_signals (fst (handlePaste onPasteFromPart p event ev)) = [Some ''start'', None]
       \<and> next_calls (fst (handlePaste onPasteFromPart p event ev)) = 0"
  using assms by (simp add: handlePaste_def Let_def)

theorem handlePaste_insert_witness:
  "handlePaste None (pasting_props inserting_interceptor) example_event example_value =
     ([OnLoading (Some ''start''), OnPaste example_args,
       OnPatch (PatchEvent [Insert [[block_x1]] ''after'' (Some [KeySeg ''b2''])]),
       OnLoading None],
      Returned [block_x1])"
proof -
  have c: "configured_interceptor None (pasting_props inserting_interceptor) =
      Some inserting_interceptor"
    by (simp add: configured_interceptor_def pasting_props_def)
  have r: "inserting_interceptor example_args =
      Some \<lparr>insert_payload = Some [block_x1], result_path = Some [KeySeg ''b2'']\<rparr>"
    by (simp add: inserting_interceptor_def)
  show ?thesis
    using handlePaste_insert [where onPasteFromPart = None
        and p = "pasting_props inserting_interceptor" and interceptor = inserting_interceptor
        and args = example_args and event = example_event and ev = example_value
        and result = "\<lparr>insert_payload = Some [block_x1], result_path = Some [KeySeg ''b2'']\<rparr>"
        and blocks = "[block_x1]" and P = "Some [KeySeg ''b2'']"]
      c r example_args_eq [of inserting_interceptor]
    by simp
qed

text \<open>
  C10. When an interceptor is configured and its result has no \<^verbatim>\<open>insert\<close> payload
  (or it returns nothing), the calls are \<^verbatim>\<open>onLoading({paste: 'start'})\<close>, the
  interceptor, \<^verbatim>\<open>onLoading({paste: null})\<close> and then \<^verbatim>\<open>next()\<close>. When no
  interceptor is configured, the only call is \<^verbatim>\<open>next()\<close>: the loading callback
  receives nothing.
\<close>

theorem handlePaste_no_insert:
  assumes "args = \<lparr>pa_event = event, pa_value = pvalue p, pa_path = paste_path ev, pa_type = ptype p\<rparr>"
  shows "(configured_interceptor onPasteFromPart p = Some interceptor
          \<and> (interceptor args = None \<or> (\<exists>r. interceptor args = Some r \<and> insert_payload r = None))
          \<longrightarrow> handlePaste onPasteFromPart p event ev =
               ([OnLoading (Some ''start''), OnPaste args, OnLoading None, Next], NextResult))
       \<and> (configured_interceptor onPasteFromPart p = None
          \<longrightarrow> handlePaste onPasteFromPart p event ev = ([Next], NextResult)
              \<and> loading_signals (fst (handlePaste onPasteFromPart p event ev)) = [])"
  using assms by (auto simp add: handlePaste_def Let_def)

theorem handlePaste_no_insert_witness:
  "handlePaste None (pasting_props declining_interceptor) example_event example_value =
     ([OnLoading (Some ''start''), OnPaste example_args, OnLoading None, Next], NextResult)
   \<and> handlePaste None (example_props (Some [KeySeg ''b1''])) example_event example_value =
     ([Next], NextResult)
   \<and> loading_signals
       (fst (handlePaste None (example_props (Some [KeySeg ''b1''])) example_event example_value)) = []"
proof -
  have c: "configured_interceptor None (pasting_props declining_interceptor) =
      Some declining_interceptor"
    by (simp add: configured_interceptor_def pasting_props_def)
  have r: "declining_interceptor example_args = Some \<lparr>insert_payload = None, result_path = None\<rparr>"
    by (simp add: declining_interceptor_def)
  have n: "configured_interceptor None (example_props (Some [KeySeg ''b1''])) = None"
    by (simp add: configured_interceptor_def example_props_def)
  have e: "example_args =
      \<lparr>pa_event = example_event, pa_value = pvalue (example_props (Some [KeySeg ''b1''])),
       pa_path = paste_path example_value,
       pa_type = ptype (example_props (Some [KeySeg ''b1'']))\<rparr>"
    using example_args_eq [of declining_interceptor] by (simp add: pasting_props_def)
  show ?thesis
    using handlePaste_no_insert [where args = example_args and event = example_event
        and p = "pasting_props declining_interceptor" and ev = example_value
        and onPasteFromPart = None and interceptor = declining_interceptor]
      handlePaste_no_insert [where args = example_args and event = example_event
        and p = "example_props (Some [KeySeg ''b1''])" and ev = example_value
        and onPasteFromPart = None and interceptor = declining_interceptor]
      c r n e example_args_eq [of declining_interceptor]
    by simp
qed

section \<open>Change handling: theorems\<close>

lemma example_props_simps:
  "focusPath (example_props fp) = fp" "editorValue (example_props fp) = example_value"
  "document example_value = example_document" "focusBlock example_value = Some block_b1"
  "getEditor mounted = Some SlateReactEditor"
  by (simp_all add: example_props_def example_value_def mounted_def getEditor_def)

lemma example_keys:
  "key block_b1 = ''b1''" "key block_b2 = ''b2''" "key span_s1 = ''s1''" "key span_s2 = ''s2''"
  "key inline_i1 = ''i1''" "key text_t1 = ''t1''" "key text_t2 = ''t2''" "key text_t3 = ''t3''"
  by (simp_all add: block_b1_def block_b2_def span_s1_def span_s2_def
      inline_i1_def text_t1_def text_t2_def text_t3_def)

text \<open>
  C6. \<^verbatim>\<open>handleChange\<close> always makes exactly one call, to \<^verbatim>\<open>onChange\<close> with the
  editor. It hands over the callback that calls \<^verbatim>\<open>onFocus\<close> with the one-segment
  path of the focused block's key exactly when there is a focused block and the focus
  path of the props has exactly one segment; in every other case \<^verbatim>\<open>onChange\<close> gets
  no callback.
\<close>

theorem handleChange_focus:
  "(\<forall>fb fp. focusBlock ev = Some fb \<and> focusPath p = Some fp \<and> length fp = 1 \<longrightarrow>
       handleChange p ev = [OnChange ev (Some (OnFocusCallback [KeySeg (key fb)]))])
   \<and> (focusBlock ev = None \<or> focusPath p = None \<or> (\<exists>fp. focusPath p = Some fp \<and> length fp \<noteq> 1) \<longrightarrow>
       handleChange p ev = [OnChange ev None])
   \<and> (\<exists>cb. handleChange p ev = [OnChange ev cb])"
  by (auto simp add: handleChange_def Let_def split: option.splits)

theorem handleChange_focus_witness:
  "handleChange (example_props (Some [KeySeg ''b2''])) example_value =
     [OnChange example_value (Some (OnFocusCallback [KeySeg ''b1'']))]
   \<and> handleChange (example_props (Some [KeySeg ''b2'', FieldSeg ''children'', KeySeg ''s2'']))
       example_value =
     [OnChange example_value None]"
  using handleChange_focus [of example_value "example_props (Some [KeySeg ''b2''])"]
    handleChange_focus [of example_value
      "example_props (Some [KeySeg ''b2'', FieldSeg ''children'', KeySeg ''s2''])"]
  by (simp add: example_props_simps example_keys)

section \<open>The plugin list: theorem\<close>

text \<open>
  C5. The plugin list that the constructor builds is, for every default block type and
  all props, the eighteen plugins below in this order, each with the configuration
  shown; read through the roles of the specification it is the registration order of
  the specification.
\<close>

theorem constructor_plugins:
  "plugins (constructor d p) =
     [QueryPlugin, ListItemOnEnterKeyPlugin d, ListItemOnTabKeyPlugin, ToggleListItemPlugin,
      TextBlockOnEnterKeyPlugin d,
      SetMarksOnKeyComboPlugin (map dvalue (decorators (blockContentFeatures p))),
      SoftBreakPlugin [type_name d] True, PastePlugin (ptype p) (blockContentFeatures p),
      InsertBlockOnEnter d, OnDropPlugin, SetBlockStylePlugin, ToggleAnnotationPlugin,
      ExpandToWordPlugin, WrapSpanPlugin, InsertInlineObjectPlugin (ptype p),
      InsertBlockObjectPlugin, UndoRedoPlugin (undoRedoStack p), FireFoxVoidNodePlugin]
   \<and> map plugin_role (plugins (constructor d p)) = registration_order
   \<and> length (plugins (constructor d p)) = 18"
  by (simp add: constructor_def registration_order_def)

section \<open>Focus path tracking: theorems\<close>

lemma find_None_set: "find P xs = None \<longleftrightarrow> (\<forall>x\<in>set xs. \<not> P x)"
  by (induction xs) auto

lemma find_SomeD: "find P xs = Some x \<Longrightarrow> P x \<and> x \<in> set xs"
  by (induction xs) (auto split: if_splits)

lemma getDescendant_None_iff:
  "getDescendant doc (Some k) = None \<longleftrightarrow> (\<forall>pn\<in>set (all_nodes doc). key (snd pn) \<noteq> k)"
  by (simp add: getDescendant_def lookup_key_def find_None_set)

lemma getDescendant_SomeD:
  "getDescendant doc (Some k) = Some c \<Longrightarrow> key c = k \<and> c \<in> snd ` set (all_nodes doc)"
  unfolding getDescendant_def lookup_key_def
  by (force dest!: find_SomeD)

text \<open>
  The helper of the specification returns \<^verbatim>\<open>null\<close> exactly when no span below the
  block carries the annotation.
\<close>

lemma spec_findInlineByAnnotationKey_None_iff:
  "spec_findInlineByAnnotationKey a (Some b) = None \<longleftrightarrow>
     (\<forall>n\<in>snd ` set (descendants b). \<not> carries_annotation a n)"
  by (simp add: spec_findInlineByAnnotationKey_def find_None_set)

lemma at_simps:
  "at (a # r) 0 = Some a"
  "at (a # b # c # r) 2 = Some c" "at [a, b] 2 = None" "at [a] 2 = None"
  "at (a # b # r) (Suc 0) = Some b" "at [a] (Suc 0) = None"
  by (simp_all add: numeral_2_eq_2)

lemma trackFocusPath_one:
  "trackFocusPath finder inst p = Inr es \<Longrightarrow> length es \<le> 1 \<and> length (scrolls es) = length es"
  by (auto simp: trackFocusPath_def Let_def split: option.splits if_splits sum.splits)

lemma componentDidUpdate_same:
  "focusPath p = focusPath prev \<Longrightarrow> componentDidUpdate finder inst prev p = Inr []"
  by (simp add: componentDidUpdate_def Let_def split: option.splits)

lemma updates_same:
  "\<forall>p\<in>set ps. focusPath p = focusPath p0 \<Longrightarrow> updates finder inst p0 ps = Inr []"
proof (induction ps arbitrary: p0)
  case Nil
  then show ?case by simp
next
  case (Cons q qs)
  have "componentDidUpdate finder inst p0 q = Inr []"
    using Cons.prems by (simp add: componentDidUpdate_same)
  moreover have "updates finder inst q qs = Inr []"
    using Cons.prems by (intro Cons.IH) simp
  ultimately show ?case by simp
qed

lemma descendants_example:
  "descendants example_document =
     [(example_document, block_b1), (block_b1, span_s1), (span_s1, text_t1),
      (block_b1, inline_i1), (inline_i1, text_t2),
      (example_document, block_b2), (block_b2, span_s2), (span_s2, text_t3)]"
  by (simp add: example_document_def block_b1_def block_b2_def span_s1_def span_s2_def
      inline_i1_def text_t1_def text_t2_def text_t3_def)

lemma descendants_b2: "descendants block_b2 = [(block_b2, span_s2), (span_s2, text_t3)]"
  by (simp add: block_b2_def span_s2_def text_t3_def)

lemma all_nodes_example:
  "all_nodes example_document =
     [(None, example_document),
      (Some example_document, block_b1), (Some block_b1, span_s1), (Some span_s1, text_t1),
      (Some block_b1, inline_i1), (Some inline_i1, text_t2),
      (Some example_document, block_b2), (Some block_b2, span_s2), (Some span_s2, text_t3)]"
  by (simp add: all_nodes_def descendants_example)

lemma key_example_document: "key example_document = ''doc''"
  by (simp add: example_document_def)

lemma getDescendant_example:
  "getDescendant example_document (Some ''b2'') = Some block_b2"
  "getDescendant example_document (Some ''i1'') = Some inline_i1"
  "getDescendant example_document (Some ''zz'') = None"
  "getDescendant example_document (Some ''doc'') = Some example_document"
  by (simp_all add: getDescendant_def lookup_key_def all_nodes_example example_keys
      key_example_document)

lemma getParent_example: "getParent example_document ''s1'' = Some block_b1"
  by (simp add: getParent_def lookup_key_def all_nodes_example example_keys
      key_example_document)

lemma no_span_carries_a9:
  "spec_finder (Some ''a9'') (Some example_document) = Inr None"
  by (simp add: spec_finder_def spec_findInlineByAnnotationKey_def descendants_example
      carries_annotation_def block_b1_def block_b2_def span_s1_def span_s2_def inline_i1_def
      text_t1_def text_t2_def text_t3_def)

lemma no_span_of_b2_carries_a1:
  "spec_finder (Some ''a1'') (Some block_b2) = Inr None"
  by (simp add: spec_finder_def spec_findInlineByAnnotationKey_def descendants_b2
      carries_annotation_def span_s2_def text_t3_def)

text \<open>
  C2. With the editor mounted and a focus path
  \<^verbatim>\<open>[{_key: blockKey}, 'children', {_key: childKey}]\<close>: when no node of the document,
  the document itself included, has the key \<^verbatim>\<open>childKey\<close>, \<^verbatim>\<open>trackFocusPath\<close>
  raises the error "Could not find a inline with key ..., something is amiss." and
  scrolls nothing; when the document has such a node, the node that
  \<^verbatim>\<open>document.getDescendant\<close> returns for the key, and nothing else, is scrolled into
  view. This holds whatever the annotation helper is.
\<close>

theorem trackFocusPath_children:
  assumes "getEditor inst = Some ed"
    and "focusPath p = Some [KeySeg blockKey, FieldSeg ''children'', KeySeg childKey]"
  shows "((\<forall>pn\<in>set (all_nodes (document (editorValue p))). key (snd pn) \<noteq> childKey) \<longrightarrow>
            trackFocusPath finder inst p = Inl (Error (not_found_message (Some childKey))))
       \<and> (\<forall>c. getDescendant (document (editorValue p)) (Some childKey) = Some c \<longrightarrow>
            trackFocusPath finder inst p = Inr [ScrollIntoView c] \<and> key c = childKey
            \<and> c \<in> snd ` set (all_nodes (document (editorValue p))))"
proof -
  let ?doc = "document (editorValue p)"
  have res: "trackFocusPath finder inst p =
      (case getDescendant ?doc (Some childKey) of
         None \<Rightarrow> Inl (Error (not_found_message (Some childKey)))
       | Some c \<Rightarrow> Inr [ScrollIntoView c])"
    using assms
    by (simp add: trackFocusPath_def Let_def at_simps seg_truthy_def seg_key_def
        split: option.splits)
  show ?thesis
  proof (intro conjI allI impI)
    assume "\<forall>pn\<in>set (all_nodes ?doc). key (snd pn) \<noteq> childKey"
    then have "getDescendant ?doc (Some childKey) = None"
      by (simp add: getDescendant_None_iff)
    then show "trackFocusPath finder inst p = Inl (Error (not_found_message (Some childKey)))"
      by (simp add: res)
  next
    fix c assume c: "getDescendant ?doc (Some childKey) = Some c"
    then show "trackFocusPath finder inst p = Inr [ScrollIntoView c]" by (simp add: res)
    from c show "key c = childKey" by (simp add: getDescendant_SomeD)
    from c show "c \<in> snd ` set (all_nodes ?doc)" by (simp add: getDescendant_SomeD)
  qed
qed

theorem trackFocusPath_children_witness:
  "trackFocusPath spec_finder mounted
     (example_props (Some [KeySeg ''b1'', FieldSeg ''children'', KeySeg ''zz''])) =
     Inl (Error ''Could not find a inline with key zz, something is amiss.'')
   \<and> trackFocusPath spec_finder mounted
     (example_props (Some [KeySeg ''b1'', FieldSeg ''children'', KeySeg ''i1''])) =
     Inr [ScrollIntoView inline_i1]
   \<and> trackFocusPath spec_finder mounted
     (example_props (Some [KeySeg ''b1'', FieldSeg ''children'', KeySeg ''doc''])) =
     Inr [ScrollIntoView example_document]"
  using trackFocusPath_children [of mounted SlateReactEditor
      "example_props (Some [KeySeg ''b1'', FieldSeg ''children'', KeySeg ''zz''])" "''b1''" "''zz''"
      spec_finder]
    trackFocusPath_children [of mounted SlateReactEditor
      "example_props (Some [KeySeg ''b1'', FieldSeg ''children'', KeySeg ''i1''])" "''b1''" "''i1''"
      spec_finder]
    trackFocusPath_children [of mounted SlateReactEditor
      "example_props (Some [KeySeg ''b1'', FieldSeg ''children'', KeySeg ''doc''])" "''b1''" "''doc''"
      spec_finder]
  by (simp add: example_props_simps getDescendant_example all_nodes_example example_keys
      key_example_document not_found_message_def)

text \<open>
  C1, as stated, fails: in the concrete document no span of block \<open>b2\<close> carries the
  annotation \<open>a1\<close>, and for the focus path \<^verbatim>\<open>[{_key: 'b2'}, 'markDefs', {_key: 'a1'}]\<close>
  \<^verbatim>\<open>trackFocusPath\<close> scrolls the block \<open>b2\<close> into view.
\<close>

theorem trackFocusPath_markDefs_counterexample:
  "spec_findInlineByAnnotationKey (Some ''a1'') (Some block_b2) = None
   \<and> trackFocusPath spec_finder mounted
       (example_props (Some [KeySeg ''b2'', FieldSeg ''markDefs'', KeySeg ''a1''])) =
     Inr [ScrollIntoView block_b2]"
proof -
  have "spec_findInlineByAnnotationKey (Some ''a1'') (Some block_b2) = None"
    using no_span_of_b2_carries_a1 by (simp add: spec_finder_def)
  then show ?thesis
    by (simp add: trackFocusPath_def Let_def example_props_simps example_keys at_simps
        seg_truthy_def seg_key_def getDescendant_example spec_finder_def)
qed

text \<open>
  C1, amended. For a focus path \<^verbatim>\<open>[{_key: B}, 'markDefs', {_key: A}]\<close> for which the
  annotation helper finds no span (it returns \<^verbatim>\<open>null\<close> for \<open>A\<close> and the block found
  for \<open>B\<close>, as the helper of the specification does exactly when no span of the block
  carries \<open>A\<close>), \<^verbatim>\<open>trackFocusPath\<close> raises no error and scrolls no span: with the
  editor mounted and a node with key \<open>B\<close> in the document, the document itself
  included, it scrolls the node that \<^verbatim>\<open>document.getDescendant\<close> returns for \<open>B\<close>
  into view, once; otherwise it does nothing.
\<close>

theorem trackFocusPath_markDefs:
  assumes "focusPath p = Some [KeySeg B, FieldSeg ''markDefs'', KeySeg A]"
    and "finder (Some A) (getDescendant (document (editorValue p)) (Some B)) = Inr None"
  shows "trackFocusPath finder inst p =
           Inr (case getEditor inst of
                  None \<Rightarrow> []
                | Some ed \<Rightarrow>
                   (case getDescendant (document (editorValue p)) (Some B) of
                      None \<Rightarrow> []
                    | Some b \<Rightarrow> [ScrollIntoView b]))"
  using assms
  by (simp add: trackFocusPath_def Let_def at_simps seg_truthy_def seg_key_def
      split: option.splits)

theorem trackFocusPath_markDefs_witness:
  "trackFocusPath spec_finder mounted
     (example_props (Some [KeySeg ''b2'', FieldSeg ''markDefs'', KeySeg ''a1''])) =
     Inr [ScrollIntoView block_b2]
   \<and> trackFocusPath spec_finder mounted
     (example_props (Some [KeySeg ''zz'', FieldSeg ''markDefs'', KeySeg ''a1''])) = Inr []
   \<and> trackFocusPath spec_finder mounted
     (example_props (Some [KeySeg ''doc'', FieldSeg ''markDefs'', KeySeg ''a9''])) =
     Inr [ScrollIntoView example_document]"
proof -
  have z: "spec_finder (Some ''a1'') None = Inr None"
    by (simp add: spec_finder_def spec_findInlineByAnnotationKey_def)
  show ?thesis
    using trackFocusPath_markDefs [of
        "example_props (Some [KeySeg ''b2'', FieldSeg ''markDefs'', KeySeg ''a1''])"
        "''b2''" "''a1''" spec_finder mounted]
      trackFocusPath_markDefs [of
        "example_props (Some [KeySeg ''zz'', FieldSeg ''markDefs'', KeySeg ''a1''])"
        "''zz''" "''a1''" spec_finder mounted]
      trackFocusPath_markDefs [of
        "example_props (Some [KeySeg ''doc'', FieldSeg ''markDefs'', KeySeg ''a9''])"
        "''doc''" "''a9''" spec_finder mounted]
    by (simp add: example_props_simps getDescendant_example no_span_of_b2_carries_a1
        no_span_carries_a9 z)
qed

text \<open>
  C9. \<^verbatim>\<open>componentDidUpdate\<close> calls \<^verbatim>\<open>trackFocusPath\<close> only when the focus path
  differs, as a value, from the one of the previous props: with an equal focus path it
  has no effect at all. So over a run of updates that all keep the focus path of the
  first props, the updates contribute no effect, the effects of the whole life of the
  component are those of \<^verbatim>\<open>componentDidMount\<close>, and at most one scroll happens.
\<close>

theorem focus_path_unchanged_no_rescroll:
  "(focusPath p = focusPath prev \<longrightarrow> componentDidUpdate finder inst prev p = Inr [])
   \<and> ((\<forall>q\<in>set ps. focusPath q = focusPath p0) \<longrightarrow>
        updates finder inst p0 ps = Inr []
        \<and> lifecycle finder inst p0 ps = componentDidMount finder inst p0
        \<and> (\<forall>es. lifecycle finder inst p0 ps = Inr es \<longrightarrow> length (scrolls es) \<le> 1))"
proof (intro conjI impI)
  show "componentDidUpdate finder inst prev p = Inr []" if "focusPath p = focusPath prev"
    using that by (rule componentDidUpdate_same)
next
  assume same: "\<forall>q\<in>set ps. focusPath q = focusPath p0"
  then show u: "updates finder inst p0 ps = Inr []" by (rule updates_same)
  show l: "lifecycle finder inst p0 ps = componentDidMount finder inst p0"
    by (simp add: lifecycle_def u split: sum.splits)
  show "\<forall>es. lifecycle finder inst p0 ps = Inr es \<longrightarrow> length (scrolls es) \<le> 1"
    using trackFocusPath_one [of finder inst p0] by (auto simp: l componentDidMount_def)
qed

theorem focus_path_unchanged_no_rescroll_witness:
  "lifecycle spec_finder mounted (example_props (Some [KeySeg ''b2'']))
     [example_props (Some [KeySeg ''b2'']), example_props (Some [KeySeg ''b2''])] =
   Inr [ScrollIntoView block_b2]
   \<and> componentDidUpdate spec_finder mounted (example_props (Some [KeySeg ''b2'']))
       (example_props (Some [KeySeg ''b2''])) = Inr []"
proof -
  have m: "componentDidMount spec_finder mounted (example_props (Some [KeySeg ''b2''])) =
      Inr [ScrollIntoView block_b2]"
    by (simp add: componentDidMount_def trackFocusPath_def Let_def example_props_simps
        example_keys at_simps seg_truthy_def seg_key_def getDescendant_example)
  show ?thesis
    using focus_path_unchanged_no_rescroll [of "example_props (Some [KeySeg ''b2''])"
        "example_props (Some [KeySeg ''b2''])" spec_finder mounted
        "[example_props (Some [KeySeg ''b2'']), example_props (Some [KeySeg ''b2''])]"
        "example_props (Some [KeySeg ''b2''])"]
    by (simp add: m example_props_simps)
qed

section \<open>Node rendering: theorems\<close>

lemma list3_cases:
  obtains "xs = []" | a where "xs = [a]" | a b where "xs = [a, b]"
    | a b c r where "xs = a # b # c # r"
  by (cases xs rule: list.exhaust; simp)
     (metis list.exhaust)

lemma key_of_eq_Some: "(key_of s = Some k) = (s = KeySeg k)"
  by (cases s) auto

text \<open>The index reads of the two filters, as shapes of the marker's path.\<close>

lemma key_marker_match_eq: "key_marker_match k m = targets_third_key k m"
  by (cases "mpath m" rule: list3_cases)
     (simp_all add: key_marker_match_def targets_third_key_def at_simps)

lemma annotation_marker_match_True:
  "(annotation_marker_match (Some b) a m = Inr True) = targets_annotation b a m"
proof (cases "mpath m" rule: list3_cases)
  case (4 s0 s1 s2 r)
  then show ?thesis
    by (cases s0; cases s1)
       (auto simp add: annotation_marker_match_def targets_annotation_def at_simps)
qed (auto simp add: annotation_marker_match_def targets_annotation_def at_simps
       split: segment.splits)

lemma annotation_marker_match_Inl:
  "(annotation_marker_match block a m = Inl e) = (e = TypeError \<and> marker_read_fails block m)"
proof (cases block)
  case None
  then show ?thesis
    by (auto simp add: annotation_marker_match_def marker_read_fails_def split: option.splits)
next
  case (Some b)
  show ?thesis
    by (cases "mpath m" rule: list3_cases)
       (auto simp add: Some annotation_marker_match_def marker_read_fails_def at_simps
          key_of_eq_Some)
qed

lemma filter_err_annotation:
  "filter_err (annotation_marker_match block a) ms =
     (if list_ex (marker_read_fails block) ms then Inl TypeError
      else Inr (filter (\<lambda>m. annotation_marker_match block a m = Inr True) ms))"
proof (induction ms)
  case Nil
  then show ?case by simp
next
  case (Cons m ms)
  show ?case
  proof (cases "annotation_marker_match block a m")
    case (Inl e)
    then have "e = TypeError \<and> marker_read_fails block m"
      by (simp add: annotation_marker_match_Inl)
    with Inl show ?thesis by simp
  next
    case (Inr b)
    then have "\<not> marker_read_fails block m"
      using annotation_marker_match_Inl [of block a m TypeError] by simp
    then show ?thesis using Inr Cons.IH by simp
  qed
qed

lemma annotation_markers_eq:
  "annotation_markers ms block as acc =
     (if as \<noteq> [] \<and> list_ex (marker_read_fails block) ms then Inl TypeError
      else Inr (acc @ concat (map (\<lambda>na.
             filter (\<lambda>m. annotation_marker_match block (snd na) m = Inr True) ms) as)))"
  by (induction as arbitrary: acc) (simp_all add: filter_err_annotation)

lemma marked_props_simps:
  "markers marked_props = [marker_block, marker_elsewhere, marker_annotation, marker_span]"
  "pvalue marked_props = None" "ptype marked_props = SchemaType ''body''"
  "blockContentFeatures marked_props = example_features"
  by (simp_all add: marked_props_def example_props_def)

lemma rendering_simps:
  "node (rendering n) = n" "editor_value (rendering n) = example_value"
  "isFocused (rendering n) = False"
  by (simp_all add: rendering_def)

lemma example_node_simps:
  "object block_b1 = ''block''" "ntype block_b1 = ''contentBlock''"
  "object inline_i1 = ''inline''" "ntype inline_i1 = ''footnote''" "data_key inline_i1 = Some ''i1''"
  "object span_s1 = ''inline''" "ntype span_s1 = ''span''" "data_key span_s1 = Some ''s1''"
  "annotations span_s1 = Some [(''link'', Some ''a1'')]"
  by (simp_all add: block_b1_def inline_i1_def span_s1_def)

lemma targets_third_key_examples:
  "\<not> targets_third_key k marker_block"
  "targets_third_key k marker_elsewhere = (k = Some ''i1'')"
  "targets_third_key k marker_annotation = (k = Some ''a1'')"
  "targets_third_key k marker_span = (k = Some ''s1'')"
  by (auto simp add: targets_third_key_def marker_block_def marker_elsewhere_def
      marker_annotation_def marker_span_def)

text \<open>
  C7, as stated, fails twice in the concrete document. The marker with path
  \<^verbatim>\<open>[{_key: 'b1'}]\<close> is not attached to the block \<open>b1\<close>: \<^verbatim>\<open>renderNode\<close> hands
  the content block no marker. And the marker with path
  \<^verbatim>\<open>[{_key: 'b2'}, 'markDefs', {_key: 'i1'}]\<close> is attached to the inline object
  \<open>i1\<close> of block \<open>b1\<close>, though its first two segments address neither that block nor
  its children.
\<close>

theorem renderNode_markers_counterexample:
  "marker_block \<in> set (markers marked_props)
   \<and> renderNode example_conversion marked_props (rendering block_b1) =
       Inr (ContentBlock (Some \<lparr>bkey = ''b1'', btype = ''block''\<rparr>) [] block_b1)
   \<and> renderNode example_conversion marked_props (rendering inline_i1) =
       Inr (ObjectView InlineObject (Some \<lparr>name = ''footnote''\<rparr>) False
              [marker_elsewhere] inline_i1)"
  by (simp add: renderNode_def node_markers_def Let_def marked_props_simps rendering_simps
      example_node_simps key_marker_match_eq [abs_def] targets_third_key_examples
      example_conversion_def example_keys example_features_def)

text \<open>
  C7, amended. \<^verbatim>\<open>renderNode\<close> attaches no marker to a node that is neither an
  inline node nor a span (every block). To an inline object, and to a span without
  annotations, it attaches exactly the markers whose path has a truthy third segment with
  the \<^verbatim>\<open>_key\<close> of the node's data, in the order of the marker list, whatever the first
  two segments are. A span with annotations receives these and then, for each of its
  annotations in order, every marker whose path starts with the key of the span's parent
  block, \<^verbatim>\<open>'markDefs'\<close> and a segment with the annotation's \<^verbatim>\<open>_key\<close>; this
  where the parent block exists and no marker has an empty path or the path of the
  block's \<^verbatim>\<open>markDefs\<close> itself.
\<close>

theorem renderNode_markers:
  "(object (node sp) \<noteq> ''inline'' \<and> ntype (node sp) \<noteq> ''span'' \<longrightarrow>
      (\<exists>v. renderNode conv p sp = Inr v \<and> view_markers v = []))
   \<and> (ntype (node sp) = ''span'' \<and> annotations (node sp) = None
        \<or> ntype (node sp) \<noteq> ''span'' \<and> object (node sp) = ''inline'' \<longrightarrow>
      (\<exists>v. renderNode conv p sp = Inr v
         \<and> view_markers v = filter (targets_third_key (data_key (node sp))) (markers p)))
   \<and> (\<forall>as b. ntype (node sp) = ''span'' \<and> annotations (node sp) = Some as
        \<and> getParent (document (editor_value sp)) (key (node sp)) = Some b
        \<and> \<not> list_ex (marker_read_fails (Some b)) (markers p) \<longrightarrow>
      (\<exists>v. renderNode conv p sp = Inr v
         \<and> view_markers v =
             filter (targets_third_key (data_key (node sp))) (markers p) @
             concat (map (\<lambda>na. filter (targets_annotation b (snd na)) (markers p)) as)))"
proof (intro conjI allI impI)
  assume "object (node sp) \<noteq> ''inline'' \<and> ntype (node sp) \<noteq> ''span''"
  then show "\<exists>v. renderNode conv p sp = Inr v \<and> view_markers v = []"
    by (simp add: renderNode_def node_markers_def Let_def)
next
  assume "ntype (node sp) = ''span'' \<and> annotations (node sp) = None
        \<or> ntype (node sp) \<noteq> ''span'' \<and> object (node sp) = ''inline''"
  then show "\<exists>v. renderNode conv p sp = Inr v
         \<and> view_markers v = filter (targets_third_key (data_key (node sp))) (markers p)"
    by (auto simp add: renderNode_def node_markers_def Let_def key_marker_match_eq [abs_def])
next
  fix as b
  assume a: "ntype (node sp) = ''span'' \<and> annotations (node sp) = Some as
        \<and> getParent (document (editor_value sp)) (key (node sp)) = Some b
        \<and> \<not> list_ex (marker_read_fails (Some b)) (markers p)"
  then have "node_markers p sp =
      Inr (filter (targets_third_key (data_key (node sp))) (markers p) @
           concat (map (\<lambda>na. filter (targets_annotation b (snd na)) (markers p)) as))"
    by (simp add: node_markers_def Let_def annotation_markers_eq key_marker_match_eq [abs_def]
        annotation_marker_match_True)
  with a show "\<exists>v. renderNode conv p sp = Inr v
         \<and> view_markers v =
             filter (targets_third_key (data_key (node sp))) (markers p) @
             concat (map (\<lambda>na. filter (targets_annotation b (snd na)) (markers p)) as)"
    by (simp add: renderNode_def Let_def)
qed

theorem renderNode_markers_witness:
  "view_markers (projr (renderNode example_conversion marked_props (rendering block_b1))) = []
   \<and> view_markers (projr (renderNode example_conversion marked_props (rendering inline_i1))) =
       [marker_elsewhere]
   \<and> view_markers (projr (renderNode example_conversion marked_props (rendering span_s1))) =
       [marker_span, marker_annotation]"
proof -
  let ?r = "renderNode example_conversion marked_props"
  have k: "filter (targets_third_key (Some ''s1'')) (markers marked_props) = [marker_span]"
    "filter (targets_third_key (Some ''i1'')) (markers marked_props) = [marker_elsewhere]"
    by (simp_all add: marked_props_simps targets_third_key_examples)
  have f: "filter (targets_annotation block_b1 (Some ''a1'')) (markers marked_props) =
      [marker_annotation]"
    by (simp add: marked_props_simps targets_annotation_def example_keys marker_block_def
        marker_elsewhere_def marker_annotation_def marker_span_def)
  have "object (node (rendering block_b1)) \<noteq> ''inline''
      \<and> ntype (node (rendering block_b1)) \<noteq> ''span''"
    by (simp add: rendering_simps example_node_simps)
  with renderNode_markers [of "rendering block_b1" example_conversion marked_props]
  have "\<exists>v. ?r (rendering block_b1) = Inr v \<and> view_markers v = []"
    by blast
  then have b: "view_markers (projr (?r (rendering block_b1))) = []"
    by auto
  have "ntype (node (rendering inline_i1)) \<noteq> ''span''
      \<and> object (node (rendering inline_i1)) = ''inline''"
    by (simp add: rendering_simps example_node_simps)
  with renderNode_markers [of "rendering inline_i1" example_conversion marked_props]
  have "\<exists>v. ?r (rendering inline_i1) = Inr v
      \<and> view_markers v =
          filter (targets_third_key (data_key (node (rendering inline_i1)))) (markers marked_props)"
    by blast
  then have i: "view_markers (projr (?r (rendering inline_i1))) = [marker_elsewhere]"
    by (auto simp add: rendering_simps example_node_simps k)
  have "ntype (node (rendering span_s1)) = ''span''
      \<and> annotations (node (rendering span_s1)) = Some [(''link'', Some ''a1'')]
      \<and> getParent (document (editor_value (rendering span_s1))) (key (node (rendering span_s1)))
          = Some block_b1
      \<and> \<not> list_ex (marker_read_fails (Some block_b1)) (markers marked_props)"
    by (simp add: rendering_simps example_node_simps example_props_simps getParent_example
        example_keys marked_props_simps marker_read_fails_def
        marker_block_def marker_elsewhere_def marker_annotation_def marker_span_def)
  with renderNode_markers [of "rendering span_s1" example_conversion marked_props]
  have "\<exists>v. ?r (rendering span_s1) = Inr v
      \<and> view_markers v =
          filter (targets_third_key (data_key (node (rendering span_s1)))) (markers marked_props) @
          concat (map (\<lambda>na. filter (targets_annotation block_b1 (snd na)) (markers marked_props))
                    [(''link'', Some ''a1'')])"
    by blast
  then have s: "view_markers (projr (?r (rendering span_s1))) = [marker_span, marker_annotation]"
    by (auto simp add: rendering_simps example_node_simps k f)
  from b i s show ?thesis by simp
qed

text \<open>
  C8. For a node of type \<^verbatim>\<open>'contentBlock'\<close>, \<^verbatim>\<open>renderNode\<close> never raises and
  returns the content block view of the node. The block it hands to the view is, when
  the persisted value is present, the first block of the value whose \<^verbatim>\<open>_key\<close> is the
  node's key (\<^verbatim>\<open>undefined\<close> when the value holds none); when the persisted value is
  absent, it is the first block of the conversion of the one tree node by
  \<^verbatim>\<open>editorValueToBlocks\<close>, whatever that conversion is.
\<close>

theorem renderNode_contentBlock:
  assumes "ntype (node sp) = ''contentBlock''"
  shows "(\<forall>v. pvalue p = Some v \<longrightarrow>
            (\<exists>ms. renderNode conv p sp =
               Inr (ContentBlock (find (\<lambda>blk. bkey blk = key (node sp)) v) ms (node sp))))
       \<and> (pvalue p = None \<longrightarrow>
            (\<exists>ms. renderNode conv p sp =
               Inr (ContentBlock (at (conv [node sp] (ptype p)) 0) ms (node sp))))"
  using assms by (simp add: renderNode_def node_markers_def Let_def)

theorem renderNode_contentBlock_witness:
  "renderNode example_conversion marked_props (rendering block_b1) =
     Inr (ContentBlock (Some \<lparr>bkey = ''b1'', btype = ''block''\<rparr>) [] block_b1)
   \<and> renderNode example_conversion (marked_props\<lparr>pvalue := Some committed_value\<rparr>)
       (rendering block_b1) =
     Inr (ContentBlock (Some \<lparr>bkey = ''b1'', btype = ''block''\<rparr>) [] block_b1)
   \<and> renderNode example_conversion (marked_props\<lparr>pvalue := Some stale_value\<rparr>)
       (rendering block_b1) =
     Inr (ContentBlock None [] block_b1)"
proof -
  have t: "ntype (node (rendering block_b1)) = ''contentBlock''"
    by (simp add: rendering_simps example_node_simps)
  have m: "node_markers q (rendering block_b1) = Inr []" for q
    by (simp add: node_markers_def Let_def rendering_simps example_node_simps)
  have v: "\<exists>ms. renderNode example_conversion q (rendering block_b1) = Inr (ContentBlock blk ms n)
      \<Longrightarrow> renderNode example_conversion q (rendering block_b1) = Inr (ContentBlock blk [] n)"
    for q blk n
    by (auto simp add: renderNode_def Let_def m split: if_splits)
  show ?thesis
    using renderNode_contentBlock [OF t, of marked_props example_conversion]
      renderNode_contentBlock [OF t, of "marked_props\<lparr>pvalue := Some committed_value\<rparr>"
        example_conversion]
      renderNode_contentBlock [OF t, of "marked_props\<lparr>pvalue := Some stale_value\<rparr>"
        example_conversion]
    by (auto simp add: marked_props_simps rendering_simps example_keys example_conversion_def
        committed_value_def stale_value_def dest!: v)
qed

end
